theory Spec2Isabelle
  imports Complex_Main
begin

unbundle bit_operations_syntax

section \<open>Syndrome decoder (segment 5.1)\<close>

text \<open>
  A syndrome is a Python tuple of integers; a decoder result is a pair whose components
  may be \<open>None\<close>: \<open>(None, None)\<close>, \<open>('X', 0)\<close>, \<open>('Unknown', -1)\<close>.
\<close>

type_synonym syndrome = "int list"
type_synonym decoded = "string option \<times> int option"

text \<open>
  The dict literal \<open>STEANE_SYNDROME_TABLE\<close>, entry by entry in source order. A Python
  dict literal keeps the last value written for a repeated key, so the lookup reads the
  reversed entry list.
\<close>

definition STEANE_SYNDROME_TABLE :: "(syndrome \<times> decoded) list" where
  "STEANE_SYNDROME_TABLE =
   [([0,0,0,0,0,0], (None, None)),
    ([0,0,0,1,1,1], (Some ''X'', Some 0)),
    ([0,0,0,1,1,0], (Some ''X'', Some 1)),
    ([0,0,0,1,0,1], (Some ''X'', Some 2)),
    ([0,0,0,1,0,0], (Some ''X'', Some 3)),
    ([0,0,0,0,1,1], (Some ''X'', Some 4)),
    ([0,0,0,0,1,0], (Some ''X'', Some 5)),
    ([0,0,0,0,0,1], (Some ''X'', Some 6)),
    ([1,1,1,0,0,0], (Some ''Z'', Some 0)),
    ([1,1,0,0,0,0], (Some ''Z'', Some 1)),
    ([1,0,1,0,0,0], (Some ''Z'', Some 2)),
    ([1,0,0,0,0,0], (Some ''Z'', Some 3)),
    ([0,1,1,0,0,0], (Some ''Z'', Some 4)),
    ([0,1,0,0,0,0], (Some ''Z'', Some 5)),
    ([0,0,1,0,0,0], (Some ''Z'', Some 6)),
    ([1,1,1,1,1,1], (Some ''Y'', Some 0)),
    ([1,1,0,1,1,0], (Some ''Y'', Some 1)),
    ([1,0,1,1,0,1], (Some ''Y'', Some 2)),
    ([1,0,0,1,0,0], (Some ''Y'', Some 3)),
    ([0,1,1,0,1,1], (Some ''Y'', Some 4)),
    ([0,1,0,0,1,0], (Some ''Y'', Some 5)),
    ([0,0,1,0,0,1], (Some ''Y'', Some 6))]"

definition dict_get :: "('k \<times> 'v) list \<Rightarrow> 'k \<Rightarrow> 'v option" where
  "dict_get entries k = map_of (rev entries) k"

definition uncorrectable :: decoded where
  "uncorrectable = (Some ''Unknown'', Some (- 1))"

definition no_error :: decoded where
  "no_error = (None, None)"

definition decode_syndrome :: "syndrome \<Rightarrow> decoded" where
  "decode_syndrome syndrome =
     (case dict_get STEANE_SYNDROME_TABLE syndrome of
        Some entry \<Rightarrow> entry
      | None \<Rightarrow> (Some ''Unknown'', Some (- 1)))"

text \<open>All \<open>2 ^ n\<close> tuples of bits, used to range over the 6-bit syndromes.\<close>

fun bit_tuples :: "nat \<Rightarrow> int list list" where
  "bit_tuples 0 = [[]]"
| "bit_tuples (Suc n) = concat (map (\<lambda>s. [0 # s, 1 # s]) (bit_tuples n))"

definition zero_syndrome :: syndrome where
  "zero_syndrome = [0, 0, 0, 0, 0, 0]"

definition correctable :: "syndrome \<Rightarrow> bool" where
  "correctable s = (decode_syndrome s \<noteq> uncorrectable)"

text \<open>The keys under which the table lists an error of a given kind on a given qubit.\<close>

definition table_syndromes :: "string \<Rightarrow> int \<Rightarrow> syndrome list" where
  "table_syndromes kind qubit =
     map fst (filter (\<lambda>entry. snd entry = (Some kind, Some qubit)) STEANE_SYNDROME_TABLE)"

section \<open>Circuits as data\<close>

text \<open>
  A kernel is the sequence of gate calls it issues, on qubit numbers. The first
  \<open>qalloc(7)\<close> of a kernel yields the data qubits 0..6; the ancillas that
  \<open>measure_all_syndromes\<close> allocates afterwards are qubits 7..12.
\<close>

datatype gate =
    squin_h nat
  | squin_cx nat nat
  | squin_x nat
  | squin_y nat
  | squin_z nat

definition prepare_steane_logical_zero :: "gate list" where
  "prepare_steane_logical_zero =
   [squin_h 0, squin_h 1, squin_h 2,
    squin_cx 0 3, squin_cx 1 3,
    squin_cx 0 4, squin_cx 2 4,
    squin_cx 1 5, squin_cx 2 5,
    squin_cx 0 6, squin_cx 1 6, squin_cx 2 6]"

definition optimized_steane_encoding :: "gate list" where
  "optimized_steane_encoding =
   [squin_h 0, squin_h 1, squin_h 2,
    squin_cx 0 3, squin_cx 1 5, squin_cx 2 4,
    squin_cx 0 4, squin_cx 1 3, squin_cx 2 5,
    squin_cx 0 6, squin_cx 1 6, squin_cx 2 6]"

definition measure_all_syndromes :: "(nat \<Rightarrow> nat) \<Rightarrow> (nat \<Rightarrow> nat) \<Rightarrow> gate list" where
  "measure_all_syndromes q anc =
   [squin_h (anc 0),
    squin_cx (anc 0) (q 0), squin_cx (anc 0) (q 1), squin_cx (anc 0) (q 2), squin_cx (anc 0) (q 3),
    squin_h (anc 0),
    squin_h (anc 1),
    squin_cx (anc 1) (q 0), squin_cx (anc 1) (q 1), squin_cx (anc 1) (q 4), squin_cx (anc 1) (q 5),
    squin_h (anc 1),
    squin_h (anc 2),
    squin_cx (anc 2) (q 0), squin_cx (anc 2) (q 2), squin_cx (anc 2) (q 4), squin_cx (anc 2) (q 6),
    squin_h (anc 2),
    squin_cx (q 0) (anc 3), squin_cx (q 1) (anc 3), squin_cx (q 2) (anc 3), squin_cx (q 3) (anc 3),
    squin_cx (q 0) (anc 4), squin_cx (q 1) (anc 4), squin_cx (q 4) (anc 4), squin_cx (q 5) (anc 4),
    squin_cx (q 0) (anc 5), squin_cx (q 2) (anc 5), squin_cx (q 4) (anc 5), squin_cx (q 6) (anc 5)]"

definition data_qubit :: "nat \<Rightarrow> nat" where
  "data_qubit i = i"

definition ancilla_qubit :: "nat \<Rightarrow> nat" where
  "ancilla_qubit i = 7 + i"

subsection \<open>Computational-basis branches\<close>

text \<open>
  A basis state is one bit per qubit. \<open>cx\<close> and the Pauli gates map a basis state to a
  basis state (up to a phase); \<open>h\<close> sends a basis state to an equal-weight combination
  of the two states that differ in that qubit. The encoding kernels apply \<open>h\<close> only to
  qubits still in \<open>|0>\<close> and then only permutation gates, so no two branches ever meet
  and the list of branches is exactly the support of the state: the readouts that a
  noiseless measurement of all qubits can return.
\<close>

fun step_basis :: "gate \<Rightarrow> bool list list \<Rightarrow> bool list list" where
  "step_basis (squin_h q) branches = concat (map (\<lambda>s. [s[q := False], s[q := True]]) branches)"
| "step_basis (squin_cx c t) branches = map (\<lambda>s. s[t := (s ! t \<noteq> s ! c)]) branches"
| "step_basis (squin_x q) branches = map (\<lambda>s. s[q := \<not> s ! q]) branches"
| "step_basis (squin_y q) branches = map (\<lambda>s. s[q := \<not> s ! q]) branches"
| "step_basis (squin_z q) branches = branches"

definition run_basis :: "gate list \<Rightarrow> bool list list \<Rightarrow> bool list list" where
  "run_basis circuit branches = foldl (\<lambda>bs g. step_basis g bs) branches circuit"

text \<open>
  The outcome string of a row of measured bits as the readers that convert to integers
  build it: \<open>''.join(map(str, [int(x) for x in data]))\<close> in \<open>03_multi_round_qec.py\<close> and
  \<open>''.join(map(str, data.astype(int)))\<close> in \<open>02_error_scaling.py\<close>, one character \<open>0\<close> or
  \<open>1\<close> per qubit. The readers that join the row without the conversion are not this
  function: a row of booleans gives them the words \<open>True\<close> and \<open>False\<close>, and no such string
  is among the codewords either.
\<close>

definition bitstring :: "bool list \<Rightarrow> string" where
  "bitstring shot = map (\<lambda>b. if b then CHR ''1'' else CHR ''0'') shot"

definition readouts :: "gate list \<Rightarrow> string list" where
  "readouts circuit = map bitstring (run_basis circuit [replicate 7 False])"

definition valid_codewords :: "string set" where
  "valid_codewords =
     {''0000000'', ''0001111'', ''0110011'', ''0111100'',
      ''1010101'', ''1011010'', ''1100110'', ''1101001''}"

text \<open>The CNOT part of an encoding kernel, run on the basis state in which the three
  superposition qubits hold \<open>a\<close>, \<open>b\<close>, \<open>c\<close> and the other four are 0.\<close>

definition cnot_schedule :: "gate list \<Rightarrow> gate list" where
  "cnot_schedule circuit = drop 3 circuit"

definition superposition_input :: "bool \<Rightarrow> bool \<Rightarrow> bool \<Rightarrow> bool list" where
  "superposition_input a b c = [a, b, c, False, False, False, False]"

subsection \<open>Pauli operators under conjugation\<close>

text \<open>
  A Pauli operator on the register: per qubit an X component and a Z component (both set
  is Y), and a sign. \<open>conj_gate g P\<close> is the operator that \<open>P\<close> becomes when it is moved
  past the gate \<open>g\<close>, by the usual tableau update rules.
\<close>

record pauli =
  px :: "bool list"
  pz :: "bool list"
  neg :: bool

fun conj_gate :: "gate \<Rightarrow> pauli \<Rightarrow> pauli" where
  "conj_gate (squin_h q) P =
     \<lparr>px = (px P)[q := pz P ! q], pz = (pz P)[q := px P ! q],
      neg = (neg P \<noteq> (px P ! q \<and> pz P ! q))\<rparr>"
| "conj_gate (squin_cx c t) P =
     \<lparr>px = (px P)[t := (px P ! t \<noteq> px P ! c)], pz = (pz P)[c := (pz P ! c \<noteq> pz P ! t)],
      neg = (neg P \<noteq> (px P ! c \<and> pz P ! t \<and> (px P ! t = pz P ! c)))\<rparr>"
| "conj_gate (squin_x q) P = \<lparr>px = px P, pz = pz P, neg = (neg P \<noteq> pz P ! q)\<rparr>"
| "conj_gate (squin_y q) P = \<lparr>px = px P, pz = pz P, neg = (neg P \<noteq> (px P ! q \<noteq> pz P ! q))\<rparr>"
| "conj_gate (squin_z q) P = \<lparr>px = px P, pz = pz P, neg = (neg P \<noteq> px P ! q)\<rparr>"

definition conj_circuit :: "gate list \<Rightarrow> pauli \<Rightarrow> pauli" where
  "conj_circuit circuit P = foldl (\<lambda>P g. conj_gate g P) P circuit"

text \<open>The stabilizer generators of \<open>|0...0>\<close> on \<open>n\<close> qubits are Z on each single qubit; a
  Clifford circuit maps them to generators of the stabilizer group of its output state.\<close>

definition z_on :: "nat \<Rightarrow> nat \<Rightarrow> pauli" where
  "z_on n q = \<lparr>px = replicate n False, pz = (replicate n False)[q := True], neg = False\<rparr>"

definition stabilizer_generators :: "gate list \<Rightarrow> pauli list" where
  "stabilizer_generators circuit = map (\<lambda>q. conj_circuit circuit (z_on 7 q)) [0..<7]"

text \<open>
  A single-qubit error on data qubit \<open>q\<close> of the 13-qubit register (7 data, 6 ancilla).
  Any other kind is no error at all.
\<close>

definition single_error :: "string \<Rightarrow> nat \<Rightarrow> pauli" where
  "single_error kind q =
     \<lparr>px = (replicate 13 False)[q := (kind = ''X'' \<or> kind = ''Y'')],
      pz = (replicate 13 False)[q := (kind = ''Z'' \<or> kind = ''Y'')],
      neg = False\<rparr>"

text \<open>
  The flip pattern of an error, not the ancilla bits of a shot. An error present on the
  data before \<open>measure_all_syndromes\<close> runs is carried through the circuit by conjugation;
  an ancilla is measured in the Z basis, so its bit differs from the bit of the same run
  without the error exactly when the carried error has an X component there. The bits
  that a shot returns and \<open>decode_syndrome\<close> is given are this pattern added bit by bit
  (mod 2) to the error-free bits, and are the pattern itself only where those are all 0.
\<close>

definition syndrome_flip :: "pauli \<Rightarrow> syndrome" where
  "syndrome_flip err =
     (let carried = conj_circuit (measure_all_syndromes data_qubit ancilla_qubit) err
      in map (\<lambda>i. if px carried ! ancilla_qubit i then 1 else 0) [0..<6])"

text \<open>The support of each stabilizer, read off the circuit: the data qubits that
  ancilla \<open>i\<close> is coupled to by a \<open>cx\<close>, in either direction.\<close>

fun coupled_to :: "nat \<Rightarrow> gate \<Rightarrow> nat list" where
  "coupled_to a (squin_cx c t) = (if c = a then [t] else if t = a then [c] else [])"
| "coupled_to a g = []"

definition generator_support :: "nat \<Rightarrow> nat list" where
  "generator_support i =
     concat (map (coupled_to (ancilla_qubit i)) (measure_all_syndromes data_qubit ancilla_qubit))"

definition x_generators :: "nat list list" where
  "x_generators = map generator_support [0, 1, 2]"

definition z_generators :: "nat list list" where
  "z_generators = map generator_support [3, 4, 5]"

text \<open>The syndrome of a single-qubit error as the generator supports give it: an X error
  is seen by the Z generators that contain the qubit, a Z error by the X generators.\<close>

definition in_support :: "nat \<Rightarrow> nat list \<Rightarrow> int" where
  "in_support q support = (if q \<in> set support then 1 else 0)"

definition syndrome_of :: "string \<Rightarrow> nat \<Rightarrow> syndrome" where
  "syndrome_of kind q =
     (if kind = ''X'' then [0, 0, 0] @ map (in_support q) z_generators
      else if kind = ''Z'' then map (in_support q) x_generators @ [0, 0, 0]
      else map (in_support q) x_generators @ map (in_support q) z_generators)"

section \<open>Correction feedforward (segment 5.1)\<close>

datatype error = ValueError | ZeroDivisionError | IndexError | TypeError

text \<open>
  \<open>q[qubit_idx]\<close> on the register \<open>q\<close>, a list of qubit numbers: a negative index counts
  from the end, an index out of range raises \<open>IndexError\<close>, and \<open>None\<close> is no index.
\<close>

definition getitem :: "nat list \<Rightarrow> int option \<Rightarrow> error + nat" where
  "getitem q idx =
     (case idx of
        None \<Rightarrow> Inl TypeError
      | Some i \<Rightarrow>
          (let n = int (length q); j = (if i < 0 then n + i else i)
           in if 0 \<le> j \<and> j < n then Inr (q ! nat j) else Inl IndexError))"

text \<open>\<open>apply_correction\<close> returns the gates it issues on the register.\<close>

definition apply_correction :: "nat list \<Rightarrow> string option \<Rightarrow> int option \<Rightarrow> error + gate list" where
  "apply_correction q error_type qubit_idx =
     (if error_type = Some ''X'' then
        (case getitem q qubit_idx of Inl e \<Rightarrow> Inl e | Inr target \<Rightarrow> Inr [squin_x target])
      else if error_type = Some ''Z'' then
        (case getitem q qubit_idx of Inl e \<Rightarrow> Inl e | Inr target \<Rightarrow> Inr [squin_z target])
      else if error_type = Some ''Y'' then
        (case getitem q qubit_idx of Inl e \<Rightarrow> Inl e | Inr target \<Rightarrow> Inr [squin_y target])
      else Inr [])"

definition data_register :: "nat list" where
  "data_register = [0..<7]"

text \<open>The Pauli gate of a kind on a qubit, and the decoder results that name one.\<close>

definition pauli_gate :: "string \<Rightarrow> nat \<Rightarrow> gate" where
  "pauli_gate kind target =
     (if kind = ''X'' then squin_x target else if kind = ''Z'' then squin_z target
      else squin_y target)"

definition single_errors :: "decoded list" where
  "single_errors =
     concat (map (\<lambda>kind. map (\<lambda>qubit. (Some kind, Some qubit)) [0, 1, 2, 3, 4, 5, 6])
                 [''X'', ''Z'', ''Y''])"

text \<open>
  The single-qubit error candidates, kind and qubit, and the table that the generator
  supports give for them: the all-zero syndrome for no error, then for each candidate the
  syndrome it produces.
\<close>

definition error_candidates :: "(string \<times> nat) list" where
  "error_candidates =
     concat (map (\<lambda>kind. map (\<lambda>q. (kind, q)) [0, 1, 2, 3, 4, 5, 6]) [''X'', ''Z'', ''Y''])"

definition generated_table :: "(syndrome \<times> decoded) list" where
  "generated_table =
     (zero_syndrome, no_error) #
     map (\<lambda>(kind, q). (syndrome_of kind q, (Some kind, Some (int q)))) error_candidates"

text \<open>The six-bit syndromes that decode to a given result.\<close>

definition decoding_to :: "decoded \<Rightarrow> syndrome list" where
  "decoding_to r = filter (\<lambda>s. decode_syndrome s = r) (bit_tuples 6)"

text \<open>The qubits a gate acts on.\<close>

fun touched :: "gate \<Rightarrow> nat list" where
  "touched (squin_h q) = [q]"
| "touched (squin_cx c t) = [c, t]"
| "touched (squin_x q) = [q]"
| "touched (squin_y q) = [q]"
| "touched (squin_z q) = [q]"

section \<open>Error scaling analysis (segment 3.2)\<close>

text \<open>
  Python floats are taken as real numbers. \<open>math.log\<close> raises \<open>ValueError\<close> outside the
  positive numbers, and a division by zero raises \<open>ZeroDivisionError\<close>.
\<close>

definition log_py :: "real \<Rightarrow> error + real" where
  "log_py x = (if 0 < x then Inr (ln x) else Inl ValueError)"

fun map_log :: "real list \<Rightarrow> error + real list" where
  "map_log [] = Inr []"
| "map_log (x # xs) =
     (case log_py x of
        Inl e \<Rightarrow> Inl e
      | Inr y \<Rightarrow> (case map_log xs of Inl e \<Rightarrow> Inl e | Inr ys \<Rightarrow> Inr (y # ys)))"

text \<open>The data table: one row \<open>(p, l, ratio)\<close> per pair, \<open>ratio = l / p if p > 0 else 0\<close>.\<close>

definition ratio_table :: "real list \<Rightarrow> real list \<Rightarrow> (real \<times> real \<times> real) list" where
  "ratio_table physical_errors logical_errors =
     map (\<lambda>(p, l). (p, l, if p > 0 then l / p else 0)) (zip physical_errors logical_errors)"

text \<open>The least-squares line through the points \<open>(log_p, log_l)\<close>: the pair
  \<open>(power, a)\<close> of the source, whose \<open>power\<close> is called \<open>exponent\<close> here.\<close>

definition power_law_fit :: "real list \<Rightarrow> real list \<Rightarrow> error + (real \<times> real)" where
  "power_law_fit log_p log_l =
     (let n = length log_p in
      if n = 0 then Inl ZeroDivisionError
      else
        (let mean_x = sum_list log_p / real n;
             mean_y = sum_list log_l / real n;
             numerator = sum_list (map (\<lambda>(x, y). (x - mean_x) * (y - mean_y)) (zip log_p log_l));
             denominator = sum_list (map (\<lambda>x. (x - mean_x)\<^sup>2) log_p);
             exponent = (if denominator \<noteq> 0 then numerator / denominator else 1);
             log_a = mean_y - exponent * mean_x
         in Inr (exponent, exp log_a)))"

text \<open>The three branches of the printed interpretation.\<close>

datatype scaling_verdict = Suppresses | NoBenefit | Amplifies

definition interpret_power :: "real \<Rightarrow> scaling_verdict" where
  "interpret_power exponent =
     (if exponent < 1 then Suppresses else if exponent = 1 then NoBenefit else Amplifies)"

record analysis =
  fitted_power :: real
  coefficient :: real
  verdict :: scaling_verdict
  helps :: "(real \<times> real \<times> real) list"
  hurts :: "(real \<times> real \<times> real) list"
  below_threshold :: nat

text \<open>
  \<open>plot_error_scaling\<close>: the table is printed first; then the logarithms are taken, of all
  physical rates and then of all logical rates, and the first failure ends the call. The
  threshold lists divide by \<open>p\<close> only after every logarithm has succeeded, so \<open>p\<close> is
  positive there.
\<close>

definition plot_error_scaling ::
  "real list \<Rightarrow> real list \<Rightarrow> (real \<times> real \<times> real) list \<times> (error + analysis)" where
  "plot_error_scaling physical_errors logical_errors =
     (ratio_table physical_errors logical_errors,
      (case map_log physical_errors of
         Inl e \<Rightarrow> Inl e
       | Inr log_p \<Rightarrow>
           (case map_log logical_errors of
              Inl e \<Rightarrow> Inl e
            | Inr log_l \<Rightarrow>
                (case power_law_fit log_p log_l of
                   Inl e \<Rightarrow> Inl e
                 | Inr (b, a) \<Rightarrow>
                     (let points = zip physical_errors logical_errors
                      in Inr \<lparr>fitted_power = b, coefficient = a, verdict = interpret_power b,
                              helps = map (\<lambda>(p, l). (p, l, l / p)) (filter (\<lambda>(p, l). l < p) points),
                              hurts = map (\<lambda>(p, l). (p, l, l / p)) (filter (\<lambda>(p, l). l > p) points),
                              below_threshold = length (filter (\<lambda>(p, l). l < p) points)\<rparr>)))))"

section \<open>Properties of the decoder\<close>

lemma bit_tuples_set: "set (bit_tuples n) = {s. length s = n \<and> set s \<subseteq> {0, 1}}"
proof (induction n)
  case 0
  show ?case by auto
next
  case (Suc n)
  show ?case
  proof (rule set_eqI)
    fix s :: "int list"
    show "s \<in> set (bit_tuples (Suc n)) \<longleftrightarrow> s \<in> {s. length s = Suc n \<and> set s \<subseteq> {0, 1}}"
      using Suc by (cases s) auto
  qed
qed

lemma bit_tuples_6_distinct: "distinct (bit_tuples 6)"
  by code_simp

lemma table_keys_distinct: "distinct (map fst STEANE_SYNDROME_TABLE)"
  by code_simp

lemma table_values: "map snd STEANE_SYNDROME_TABLE = no_error # single_errors"
  by (simp add: STEANE_SYNDROME_TABLE_def single_errors_def no_error_def)

lemma results_distinct: "distinct (no_error # single_errors @ [uncorrectable])"
  by code_simp

lemma decode_syndrome_key:
  assumes "(s, entry) \<in> set STEANE_SYNDROME_TABLE"
  shows "decode_syndrome s = entry"
proof -
  have "distinct (map fst (rev STEANE_SYNDROME_TABLE))"
    using table_keys_distinct by (simp add: rev_map [symmetric])
  moreover have "(s, entry) \<in> set (rev STEANE_SYNDROME_TABLE)"
    using assms by simp
  ultimately have "map_of (rev STEANE_SYNDROME_TABLE) s = Some entry"
    by (rule map_of_is_SomeI)
  then show ?thesis by (simp add: decode_syndrome_def dict_get_def)
qed

lemma decode_syndrome_not_key:
  assumes "s \<notin> fst ` set STEANE_SYNDROME_TABLE"
  shows "decode_syndrome s = uncorrectable"
proof -
  have "map_of (rev STEANE_SYNDROME_TABLE) s = None"
    using assms by (simp add: map_of_eq_None_iff)
  then show ?thesis by (simp add: decode_syndrome_def dict_get_def uncorrectable_def)
qed

lemma decode_syndrome_range:
  "decode_syndrome s \<in> set (no_error # single_errors @ [uncorrectable])"
proof (cases "s \<in> fst ` set STEANE_SYNDROME_TABLE")
  case False
  then show ?thesis by (simp add: decode_syndrome_not_key)
next
  case True
  then obtain entry where e: "(s, entry) \<in> set STEANE_SYNDROME_TABLE" by auto
  then have "entry \<in> set (map snd STEANE_SYNDROME_TABLE)" by force
  then have "entry \<in> set (no_error # single_errors @ [uncorrectable])"
    by (auto simp add: table_values)
  then show ?thesis by (simp only: decode_syndrome_key [OF e])
qed

lemma correctable_count: "length (filter correctable (bit_tuples 6)) = 22"
  by code_simp

lemma table_is_generated: "STEANE_SYNDROME_TABLE = generated_table"
  by code_simp

lemma candidate_syndromes_distinct:
  "distinct (zero_syndrome # map (\<lambda>(kind, q). syndrome_of kind q) error_candidates)"
  by code_simp

lemma generated_keys:
  "map fst generated_table =
     zero_syndrome # map (\<lambda>(kind, q). syndrome_of kind q) error_candidates"
  by (simp add: generated_table_def case_prod_unfold)

lemma one_syndrome_each:
  "list_all (\<lambda>r. length (decoding_to r) = 1) (no_error # single_errors)"
  by code_simp

lemma decoding_to_set:
  "set (decoding_to r) = {s. length s = 6 \<and> set s \<subseteq> {0, 1} \<and> decode_syndrome s = r}"
  by (auto simp add: decoding_to_def bit_tuples_set)

lemma decoding_to_card:
  "card {s. length s = 6 \<and> set s \<subseteq> {0, 1} \<and> decode_syndrome s = r} = length (decoding_to r)"
proof -
  have "distinct (decoding_to r)"
    using bit_tuples_6_distinct by (simp add: decoding_to_def)
  then have "card (set (decoding_to r)) = length (decoding_to r)"
    by (rule distinct_card)
  then show ?thesis by (simp only: decoding_to_set)
qed

lemma generators_eval:
  "x_generators = [[0, 1, 2, 3], [0, 1, 4, 5], [0, 2, 4, 6]]"
  "z_generators = [[0, 1, 2, 3], [0, 1, 4, 5], [0, 2, 4, 6]]"
  by (simp_all add: x_generators_def z_generators_def generator_support_def
      measure_all_syndromes_def ancilla_qubit_def data_qubit_def)

lemma single_error_syndromes:
  "list_all (\<lambda>q. decode_syndrome (syndrome_of ''X'' q) = (Some ''X'', Some (int q)) \<and>
       decode_syndrome (syndrome_of ''Z'' q) = (Some ''Z'', Some (int q)) \<and>
       syndrome_flip (single_error ''X'' q) = syndrome_of ''X'' q \<and>
       syndrome_flip (single_error ''Z'' q) = syndrome_of ''Z'' q) [0..<7]"
  by code_simp

lemma single_error_syndromes_distinct:
  "distinct (map (syndrome_of ''X'') [0..<7] @ map (syndrome_of ''Z'') [0..<7])"
  by code_simp

lemma y_entries:
  "list_all (\<lambda>q. length (table_syndromes ''X'' q) = 1 \<and> length (table_syndromes ''Z'' q) = 1 \<and>
       table_syndromes ''Y'' q =
         map2 (map2 (XOR)) (table_syndromes ''X'' q) (table_syndromes ''Z'' q) \<and>
       table_syndromes ''Y'' q =
         map2 (map2 (OR)) (table_syndromes ''X'' q) (table_syndromes ''Z'' q) \<and>
       list_all (\<lambda>s. take 3 s = [0, 0, 0]) (table_syndromes ''X'' q) \<and>
       list_all (\<lambda>s. drop 3 s = [0, 0, 0]) (table_syndromes ''Z'' q) \<and>
       list_all (\<lambda>s. take 3 s \<noteq> [0, 0, 0] \<and> drop 3 s \<noteq> [0, 0, 0] \<and>
                      decode_syndrome s = (Some ''Y'', Some q)) (table_syndromes ''Y'' q))
     [0, 1, 2, 3, 4, 5, 6]"
  by code_simp

text \<open>
  C2. The decoder gives the syndrome \<open>(1,0,1,1,0,1)\<close> the result \<open>('Y', 2)\<close>, not an X error
  on qubit 2: the table lists the X error on qubit 2 under \<open>(0,0,0,1,0,1)\<close> and nowhere
  else, which is also the syndrome that the generator supports give it. The other two
  pairs are as the table has them: \<open>(1,0,0,0,0,0)\<close> is the syndrome of a Z error on qubit 3
  and decodes to it, and the all-zero syndrome decodes to the no-error result.
\<close>

theorem decoder_x2_decodes_to_y2:
  "decode_syndrome [1, 0, 1, 1, 0, 1] = (Some ''Y'', Some 2) \<and>
   decode_syndrome [1, 0, 1, 1, 0, 1] \<noteq> (Some ''X'', Some 2) \<and>
   table_syndromes ''X'' 2 = [[0, 0, 0, 1, 0, 1]] \<and>
   syndrome_of ''X'' 2 = [0, 0, 0, 1, 0, 1] \<and>
   decode_syndrome [0, 0, 0, 1, 0, 1] = (Some ''X'', Some 2) \<and>
   syndrome_of ''Z'' 3 = [1, 0, 0, 0, 0, 0] \<and>
   decode_syndrome [1, 0, 0, 0, 0, 0] = (Some ''Z'', Some 3) \<and>
   decode_syndrome [0, 0, 0, 0, 0, 0] = (None, None)"
  by code_simp

text \<open>
  C4. The generator supports are \<open>{0,1,2,3}\<close>, \<open>{0,1,4,5}\<close>, \<open>{0,2,4,6}\<close> for the X type and
  for the Z type. For every qubit \<open>q\<close> below 7, the syndrome of an X error on \<open>q\<close> decodes
  to \<open>('X', q)\<close> and that of a Z error on \<open>q\<close> to \<open>('Z', q)\<close>; these syndromes are the flip
  patterns of the errors through the measurement circuit, and the fourteen of them are
  pairwise distinct.
\<close>

theorem single_errors_decoded:
  "x_generators = [[0, 1, 2, 3], [0, 1, 4, 5], [0, 2, 4, 6]] \<and>
   z_generators = [[0, 1, 2, 3], [0, 1, 4, 5], [0, 2, 4, 6]] \<and>
   (\<forall>q<7. decode_syndrome (syndrome_of ''X'' q) = (Some ''X'', Some (int q)) \<and>
          decode_syndrome (syndrome_of ''Z'' q) = (Some ''Z'', Some (int q)) \<and>
          syndrome_flip (single_error ''X'' q) = syndrome_of ''X'' q \<and>
          syndrome_flip (single_error ''Z'' q) = syndrome_of ''Z'' q) \<and>
   distinct (map (syndrome_of ''X'') [0..<7] @ map (syndrome_of ''Z'') [0..<7])"
proof -
  have "\<forall>q\<in>set [0..<7]. decode_syndrome (syndrome_of ''X'' q) = (Some ''X'', Some (int q)) \<and>
          decode_syndrome (syndrome_of ''Z'' q) = (Some ''Z'', Some (int q)) \<and>
          syndrome_flip (single_error ''X'' q) = syndrome_of ''X'' q \<and>
          syndrome_flip (single_error ''Z'' q) = syndrome_of ''Z'' q"
    using single_error_syndromes unfolding list_all_iff .
  then show ?thesis
    using generators_eval single_error_syndromes_distinct by simp
qed

theorem single_errors_decoded_witness:
  "(2::nat) < 7 \<and> decode_syndrome (syndrome_of ''X'' 2) = (Some ''X'', Some 2) \<and>
   decode_syndrome (syndrome_of ''Z'' 2) = (Some ''Z'', Some 2) \<and>
   syndrome_of ''X'' 2 = [0, 0, 0, 1, 0, 1] \<and> syndrome_of ''Z'' 2 = [1, 0, 1, 0, 0, 0]"
proof -
  have "decode_syndrome (syndrome_of ''X'' 2) = (Some ''X'', Some (int 2)) \<and>
        decode_syndrome (syndrome_of ''Z'' 2) = (Some ''Z'', Some (int 2))"
    using single_errors_decoded by simp
  moreover have "syndrome_of ''X'' 2 = [0, 0, 0, 1, 0, 1] \<and> syndrome_of ''Z'' 2 = [1, 0, 1, 0, 0, 0]"
    by code_simp
  ultimately show ?thesis by simp
qed

text \<open>
  C5. \<open>decode_syndrome\<close> is total: every syndrome maps to the no-error result, to one of
  the 21 pairs of a kind in X, Z, Y and a qubit in 0..6, or to \<open>('Unknown', -1)\<close>, and these
  23 results are pairwise different. Of the 64 six-bit syndromes exactly 1 + 21 map to a
  result other than \<open>('Unknown', -1)\<close>: the no-error result and each of the 21 pairs is
  the result of exactly one six-bit syndrome, the all-zero syndrome for no error and for
  a pair the syndrome of that error.
\<close>

theorem decode_total_count:
  "(\<forall>s. decode_syndrome s \<in> set (no_error # single_errors @ [uncorrectable])) \<and>
   distinct (no_error # single_errors @ [uncorrectable]) \<and>
   length single_errors = 21 \<and>
   card {s. length s = 6 \<and> set s \<subseteq> {0, 1} \<and> decode_syndrome s \<noteq> uncorrectable} = 1 + 21 \<and>
   (\<forall>r \<in> set (no_error # single_errors).
      card {s. length s = 6 \<and> set s \<subseteq> {0, 1} \<and> decode_syndrome s = r} = 1) \<and>
   decode_syndrome zero_syndrome = no_error \<and>
   (\<forall>(kind, q) \<in> set error_candidates.
      (Some kind, Some (int q)) \<in> set single_errors \<and>
      decode_syndrome (syndrome_of kind q) = (Some kind, Some (int q)))"
proof -
  have "{s. length s = 6 \<and> set s \<subseteq> {0, 1} \<and> decode_syndrome s \<noteq> uncorrectable}
        = set (filter correctable (bit_tuples 6))"
    by (auto simp add: bit_tuples_set correctable_def)
  moreover have "distinct (filter correctable (bit_tuples 6))"
    using bit_tuples_6_distinct by simp
  then have "card (set (filter correctable (bit_tuples 6)))
        = length (filter correctable (bit_tuples 6))"
    by (rule distinct_card)
  ultimately have "card {s. length s = 6 \<and> set s \<subseteq> {0, 1} \<and> decode_syndrome s \<noteq> uncorrectable}
        = length (filter correctable (bit_tuples 6))"
    by (simp only:)
  then have count: "card {s. length s = 6 \<and> set s \<subseteq> {0, 1} \<and> decode_syndrome s \<noteq> uncorrectable}
        = 1 + 21"
    using correctable_count by simp
  have each: "\<forall>r \<in> set (no_error # single_errors).
      card {s. length s = 6 \<and> set s \<subseteq> {0, 1} \<and> decode_syndrome s = r} = 1"
    using one_syndrome_each unfolding list_all_iff decoding_to_card .
  have zero: "decode_syndrome zero_syndrome = no_error" by code_simp
  have "list_all (\<lambda>(kind, q). (Some kind, Some (int q)) \<in> set single_errors \<and>
      decode_syndrome (syndrome_of kind q) = (Some kind, Some (int q))) error_candidates"
    by code_simp
  then have cands: "\<forall>(kind, q) \<in> set error_candidates.
      (Some kind, Some (int q)) \<in> set single_errors \<and>
      decode_syndrome (syndrome_of kind q) = (Some kind, Some (int q))"
    unfolding list_all_iff .
  have "length single_errors = 21" by code_simp
  then show ?thesis
    using decode_syndrome_range results_distinct count each zero cands by blast
qed

theorem decode_total_count_witness:
  "(Some ''Y'', Some 2) \<in> set (no_error # single_errors) \<and>
   card {s. length s = 6 \<and> set s \<subseteq> {0, 1} \<and> decode_syndrome s = (Some ''Y'', Some 2)} = 1 \<and>
   (''Y'', 2) \<in> set error_candidates \<and>
   decode_syndrome (syndrome_of ''Y'' 2) = (Some ''Y'', Some 2)"
proof -
  have r: "(Some ''Y'', Some 2) \<in> set (no_error # single_errors)" by code_simp
  have c: "(''Y'', 2) \<in> set error_candidates" by code_simp
  have "card {s. length s = 6 \<and> set s \<subseteq> {0, 1} \<and> decode_syndrome s = (Some ''Y'', Some 2)} = 1"
    using decode_total_count r by blast
  moreover have "decode_syndrome (syndrome_of ''Y'' 2) = (Some ''Y'', Some (int 2))"
    using decode_total_count c by blast
  ultimately show ?thesis using r c by simp
qed

text \<open>
  C5, as stated, fails: the number of six-bit syndromes with a result other than
  \<open>('Unknown', -1)\<close> is not 1 + 14.
\<close>

theorem decode_count_counterexample:
  "length (filter correctable (bit_tuples 6)) \<noteq> 1 + 14"
  using correctable_count by simp

text \<open>
  C6. The table is the one that the generator supports give: its first entry is the
  all-zero syndrome with the no-error result, and its other entries are, one for each of
  the 21 single-qubit errors, the syndrome that this error produces with the error as
  result. The all-zero syndrome and the 21 produced syndromes are pairwise distinct, so no
  two errors share a key and every entry other than the all-zero one stands for exactly
  one error. Every six-bit syndrome that is neither the all-zero syndrome, set apart as no
  error, nor produced by a single-qubit error decodes to \<open>('Unknown', -1)\<close>.
\<close>

theorem table_injective:
  "STEANE_SYNDROME_TABLE =
     (zero_syndrome, no_error) #
     map (\<lambda>(kind, q). (syndrome_of kind q, (Some kind, Some (int q)))) error_candidates \<and>
   length error_candidates = 21 \<and> distinct error_candidates \<and>
   distinct (zero_syndrome # map (\<lambda>(kind, q). syndrome_of kind q) error_candidates) \<and>
   distinct (map fst STEANE_SYNDROME_TABLE) \<and>
   distinct (map snd STEANE_SYNDROME_TABLE) \<and>
   decode_syndrome zero_syndrome = no_error \<and>
   (\<forall>(kind, q) \<in> set error_candidates.
      decode_syndrome (syndrome_of kind q) = (Some kind, Some (int q))) \<and>
   (\<forall>s. length s = 6 \<and> set s \<subseteq> {0, 1} \<and> s \<noteq> zero_syndrome \<and>
        (\<forall>(kind, q) \<in> set error_candidates. s \<noteq> syndrome_of kind q) \<longrightarrow>
        decode_syndrome s = uncorrectable)"
proof -
  have table: "STEANE_SYNDROME_TABLE =
     (zero_syndrome, no_error) #
     map (\<lambda>(kind, q). (syndrome_of kind q, (Some kind, Some (int q)))) error_candidates"
    using table_is_generated by (simp only: generated_table_def)
  have keys: "map fst STEANE_SYNDROME_TABLE =
      zero_syndrome # map (\<lambda>(kind, q). syndrome_of kind q) error_candidates"
    using generated_keys by (simp only: table_is_generated)
  have unlisted: "decode_syndrome s = uncorrectable"
    if "s \<noteq> zero_syndrome" and "\<forall>(kind, q) \<in> set error_candidates. s \<noteq> syndrome_of kind q" for s
  proof (rule decode_syndrome_not_key, rule notI)
    assume "s \<in> fst ` set STEANE_SYNDROME_TABLE"
    then have "s \<in> set (map fst STEANE_SYNDROME_TABLE)" by simp
    then have "s \<in> set (zero_syndrome # map (\<lambda>(kind, q). syndrome_of kind q) error_candidates)"
      by (simp only: keys)
    then show False using that by auto
  qed
  have "list_all (\<lambda>(kind, q). decode_syndrome (syndrome_of kind q) = (Some kind, Some (int q)))
      error_candidates"
    by code_simp
  then have cands: "\<forall>(kind, q) \<in> set error_candidates.
      decode_syndrome (syndrome_of kind q) = (Some kind, Some (int q))"
    unfolding list_all_iff .
  have "length error_candidates = 21 \<and> distinct error_candidates" by code_simp
  moreover have "distinct (map snd STEANE_SYNDROME_TABLE)" by code_simp
  moreover have "decode_syndrome zero_syndrome = no_error" by code_simp
  ultimately show ?thesis
    using table candidate_syndromes_distinct table_keys_distinct cands unlisted by blast
qed

theorem table_injective_witness:
  "length [1, 1, 0, 0, 1, 1 :: int] = 6 \<and> set [1, 1, 0, 0, 1, 1 :: int] \<subseteq> {0, 1} \<and>
   [1, 1, 0, 0, 1, 1] \<noteq> zero_syndrome \<and>
   list_all (\<lambda>(kind, q). [1, 1, 0, 0, 1, 1] \<noteq> syndrome_of kind q) error_candidates \<and>
   decode_syndrome [1, 1, 0, 0, 1, 1] = uncorrectable \<and>
   (''Z'', 3) \<in> set error_candidates \<and>
   decode_syndrome (syndrome_of ''Z'' 3) = (Some ''Z'', Some 3)"
proof -
  have h: "length [1, 1, 0, 0, 1, 1 :: int] = 6 \<and> set [1, 1, 0, 0, 1, 1 :: int] \<subseteq> {0, 1} \<and>
      [1, 1, 0, 0, 1, 1] \<noteq> zero_syndrome"
    by (simp add: zero_syndrome_def)
  have n: "list_all (\<lambda>(kind, q). [1, 1, 0, 0, 1, 1] \<noteq> syndrome_of kind q) error_candidates"
    by code_simp
  then have n': "\<forall>(kind, q) \<in> set error_candidates. [1, 1, 0, 0, 1, 1] \<noteq> syndrome_of kind q"
    unfolding list_all_iff .
  have c: "(''Z'', 3) \<in> set error_candidates" by code_simp
  have "decode_syndrome [1, 1, 0, 0, 1, 1] = uncorrectable"
    using table_injective h n' by blast
  moreover have "decode_syndrome (syndrome_of ''Z'' 3) = (Some ''Z'', Some (int 3))"
    using table_injective c by blast
  ultimately show ?thesis using h n c by simp
qed

text \<open>
  C10. For every qubit \<open>q\<close> in 0..6 the table lists exactly one syndrome for an X error
  and one for a Z error on \<open>q\<close>, the first with zero X-generator bits and the second with
  zero Z-generator bits, and exactly one syndrome for a Y error on \<open>q\<close>: their
  componentwise XOR, which is also their componentwise OR. Both halves of the Y syndrome
  are nonzero, and it decodes to \<open>('Y', q)\<close>.
\<close>

theorem y_syndrome_is_xor:
  "0 \<le> q \<and> q < 7 \<Longrightarrow>
   (\<exists>sx sz. table_syndromes ''X'' q = [sx] \<and> table_syndromes ''Z'' q = [sz] \<and>
      take 3 sx = [0, 0, 0] \<and> drop 3 sz = [0, 0, 0] \<and>
      table_syndromes ''Y'' q = [map2 (XOR) sx sz] \<and>
      map2 (XOR) sx sz = map2 (OR) sx sz \<and>
      take 3 (map2 (XOR) sx sz) \<noteq> [0, 0, 0] \<and> drop 3 (map2 (XOR) sx sz) \<noteq> [0, 0, 0] \<and>
      decode_syndrome (map2 (XOR) sx sz) = (Some ''Y'', Some q))"
proof -
  assume "0 \<le> q \<and> q < 7"
  then have "q \<in> set [0, 1, 2, 3, 4, 5, 6]" by (simp; presburger)
  then have *: "length (table_syndromes ''X'' q) = 1 \<and> length (table_syndromes ''Z'' q) = 1 \<and>
       table_syndromes ''Y'' q =
         map2 (map2 (XOR)) (table_syndromes ''X'' q) (table_syndromes ''Z'' q) \<and>
       table_syndromes ''Y'' q =
         map2 (map2 (OR)) (table_syndromes ''X'' q) (table_syndromes ''Z'' q) \<and>
       list_all (\<lambda>s. take 3 s = [0, 0, 0]) (table_syndromes ''X'' q) \<and>
       list_all (\<lambda>s. drop 3 s = [0, 0, 0]) (table_syndromes ''Z'' q) \<and>
       list_all (\<lambda>s. take 3 s \<noteq> [0, 0, 0] \<and> drop 3 s \<noteq> [0, 0, 0] \<and>
                      decode_syndrome s = (Some ''Y'', Some q)) (table_syndromes ''Y'' q)"
    using y_entries unfolding list_all_iff by blast
  then obtain sx sz where sx: "table_syndromes ''X'' q = [sx]" and sz: "table_syndromes ''Z'' q = [sz]"
    by (auto simp add: length_Suc_conv)
  have halves: "take 3 sx = [0, 0, 0] \<and> drop 3 sz = [0, 0, 0]"
    using * unfolding sx sz by simp
  have "table_syndromes ''Y'' q = map2 (map2 (XOR)) [sx] [sz]"
    using * unfolding sx sz by blast
  then have y: "table_syndromes ''Y'' q = [map2 (XOR) sx sz]"
    by simp
  have "table_syndromes ''Y'' q = map2 (map2 (OR)) [sx] [sz]"
    using * unfolding sx sz by blast
  then have y2: "table_syndromes ''Y'' q = [map2 (OR) sx sz]"
    by simp
  have "[map2 (XOR) sx sz] = [map2 (OR) sx sz]"
    using y y2 by (rule trans [OF sym])
  then have same: "map2 (XOR) sx sz = map2 (OR) sx sz"
    by (rule list.inject [THEN iffD1, THEN conjunct1])
  have "list_all (\<lambda>s. take 3 s \<noteq> [0, 0, 0] \<and> drop 3 s \<noteq> [0, 0, 0] \<and>
                      decode_syndrome s = (Some ''Y'', Some q)) (table_syndromes ''Y'' q)"
    using * by blast
  then have "take 3 (map2 (XOR) sx sz) \<noteq> [0, 0, 0] \<and> drop 3 (map2 (XOR) sx sz) \<noteq> [0, 0, 0] \<and>
      decode_syndrome (map2 (XOR) sx sz) = (Some ''Y'', Some q)"
    unfolding y by simp
  then show ?thesis using sx sz halves y same by blast
qed

theorem y_syndrome_is_xor_witness:
  "(0::int) \<le> 2 \<and> (2::int) < 7 \<and> table_syndromes ''X'' 2 = [[0, 0, 0, 1, 0, 1]] \<and>
   table_syndromes ''Z'' 2 = [[1, 0, 1, 0, 0, 0]] \<and>
   table_syndromes ''Y'' 2 = [[1, 0, 1, 1, 0, 1]]"
proof -
  have x: "table_syndromes ''X'' 2 = [[0, 0, 0, 1, 0, 1]]" by code_simp
  have z: "table_syndromes ''Z'' 2 = [[1, 0, 1, 0, 0, 0]]" by code_simp
  have "(0::int) \<le> 2 \<and> (2::int) < 7" by simp
  from y_syndrome_is_xor [OF this] have "table_syndromes ''Y'' 2 = [[1, 0, 1, 1, 0, 1]]"
    unfolding x z by simp
  then show ?thesis using x z by simp
qed

section \<open>Properties of the encoding circuits\<close>

lemma readouts_prepare:
  "readouts prepare_steane_logical_zero =
     [''0000000'', ''0010111'', ''0101011'', ''0111100'',
      ''1001101'', ''1011010'', ''1100110'', ''1110001'']"
  by code_simp

lemma readouts_optimized:
  "readouts optimized_steane_encoding =
     [''0000000'', ''0010111'', ''0101011'', ''0111100'',
      ''1001101'', ''1011010'', ''1100110'', ''1110001'']"
  by code_simp

lemma cnot_schedule_prepare:
  "run_basis (cnot_schedule prepare_steane_logical_zero) [superposition_input a b c] =
     [[a, b, c, a \<noteq> b, a \<noteq> c, b \<noteq> c, (a \<noteq> b) \<noteq> c]]"
  by (auto simp add: run_basis_def cnot_schedule_def prepare_steane_logical_zero_def
      superposition_input_def)

lemma cnot_schedule_optimized:
  "run_basis (cnot_schedule optimized_steane_encoding) [superposition_input a b c] =
     [[a, b, c, a \<noteq> b, a \<noteq> c, b \<noteq> c, (a \<noteq> b) \<noteq> c]]"
  by (auto simp add: run_basis_def cnot_schedule_def optimized_steane_encoding_def
      superposition_input_def)

lemma initial_generators:
  "map (z_on 7) [0..<7] =
     map (\<lambda>q. \<lparr>px = [False, False, False, False, False, False, False],
                 pz = [False, False, False, False, False, False, False][q := True],
                 neg = False\<rparr>) [0, 1, 2, 3, 4, 5, 6]"
  by (simp add: z_on_def upt_rec eval_nat_numeral)

lemma stabilizer_generators_map:
  "stabilizer_generators circuit = map (conj_circuit circuit) (map (z_on 7) [0..<7])"
  by (simp add: stabilizer_generators_def)

lemma generators_prepare:
  "stabilizer_generators prepare_steane_logical_zero =
     [\<lparr>px = [True, False, False, True, True, False, True],
       pz = [False, False, False, False, False, False, False], neg = False\<rparr>,
      \<lparr>px = [False, True, False, True, False, True, True],
       pz = [False, False, False, False, False, False, False], neg = False\<rparr>,
      \<lparr>px = [False, False, True, False, True, True, True],
       pz = [False, False, False, False, False, False, False], neg = False\<rparr>,
      \<lparr>px = [False, False, False, False, False, False, False],
       pz = [True, True, False, True, False, False, False], neg = False\<rparr>,
      \<lparr>px = [False, False, False, False, False, False, False],
       pz = [True, False, True, False, True, False, False], neg = False\<rparr>,
      \<lparr>px = [False, False, False, False, False, False, False],
       pz = [False, True, True, False, False, True, False], neg = False\<rparr>,
      \<lparr>px = [False, False, False, False, False, False, False],
       pz = [True, True, True, False, False, False, True], neg = False\<rparr>]"
  unfolding stabilizer_generators_map initial_generators
  by (simp add: conj_circuit_def prepare_steane_logical_zero_def)

lemma generators_optimized:
  "stabilizer_generators optimized_steane_encoding =
     [\<lparr>px = [True, False, False, True, True, False, True],
       pz = [False, False, False, False, False, False, False], neg = False\<rparr>,
      \<lparr>px = [False, True, False, True, False, True, True],
       pz = [False, False, False, False, False, False, False], neg = False\<rparr>,
      \<lparr>px = [False, False, True, False, True, True, True],
       pz = [False, False, False, False, False, False, False], neg = False\<rparr>,
      \<lparr>px = [False, False, False, False, False, False, False],
       pz = [True, True, False, True, False, False, False], neg = False\<rparr>,
      \<lparr>px = [False, False, False, False, False, False, False],
       pz = [True, False, True, False, True, False, False], neg = False\<rparr>,
      \<lparr>px = [False, False, False, False, False, False, False],
       pz = [False, True, True, False, False, True, False], neg = False\<rparr>,
      \<lparr>px = [False, False, False, False, False, False, False],
       pz = [True, True, True, False, False, False, True], neg = False\<rparr>]"
  unfolding stabilizer_generators_map initial_generators
  by (simp add: conj_circuit_def optimized_steane_encoding_def)

text \<open>
  C1. A noiseless run of the encoding kernel can read out \<open>0010111\<close>, the branch in which
  qubit 2 alone of the three superposition qubits is 1, and this string is not in
  \<open>valid_codewords\<close>; of the eight readouts only four are.
\<close>

theorem noiseless_readout_not_codeword:
  "readouts prepare_steane_logical_zero =
     [''0000000'', ''0010111'', ''0101011'', ''0111100'',
      ''1001101'', ''1011010'', ''1100110'', ''1110001''] \<and>
   ''0010111'' \<in> set (readouts prepare_steane_logical_zero) \<and>
   ''0010111'' \<in> set (readouts optimized_steane_encoding) \<and>
   ''0010111'' \<notin> valid_codewords \<and>
   filter (\<lambda>bs. bs \<in> valid_codewords) (readouts prepare_steane_logical_zero) =
     [''0000000'', ''0111100'', ''1011010'', ''1100110'']"
  unfolding readouts_prepare readouts_optimized by (simp add: valid_codewords_def)

text \<open>
  C7. The two encoding kernels start with the same three \<open>h\<close> gates and apply the same
  nine \<open>cx\<close> gates in a different order. For every value of the three superposition bits
  both CNOT schedules give qubits 3..6 the parities \<open>a+b\<close>, \<open>a+c\<close>, \<open>b+c\<close>, \<open>a+b+c\<close>, so the
  two kernels have the same readouts and the same stabilizer generators.
\<close>

theorem encodings_equivalent:
  "take 3 prepare_steane_logical_zero = take 3 optimized_steane_encoding \<and>
   distinct prepare_steane_logical_zero \<and> distinct optimized_steane_encoding \<and>
   set prepare_steane_logical_zero = set optimized_steane_encoding \<and>
   (\<forall>a b c.
      run_basis (cnot_schedule prepare_steane_logical_zero) [superposition_input a b c] =
        [[a, b, c, a \<noteq> b, a \<noteq> c, b \<noteq> c, (a \<noteq> b) \<noteq> c]] \<and>
      run_basis (cnot_schedule optimized_steane_encoding) [superposition_input a b c] =
        run_basis (cnot_schedule prepare_steane_logical_zero) [superposition_input a b c]) \<and>
   readouts optimized_steane_encoding = readouts prepare_steane_logical_zero \<and>
   stabilizer_generators optimized_steane_encoding =
     stabilizer_generators prepare_steane_logical_zero"
proof -
  have "take 3 prepare_steane_logical_zero = take 3 optimized_steane_encoding"
    by (simp add: prepare_steane_logical_zero_def optimized_steane_encoding_def)
  moreover have "distinct prepare_steane_logical_zero \<and> distinct optimized_steane_encoding"
    by (simp add: prepare_steane_logical_zero_def optimized_steane_encoding_def)
  moreover have "set prepare_steane_logical_zero = set optimized_steane_encoding"
    by (simp add: prepare_steane_logical_zero_def optimized_steane_encoding_def) blast
  moreover have "stabilizer_generators optimized_steane_encoding =
     stabilizer_generators prepare_steane_logical_zero"
    by (simp only: generators_prepare generators_optimized)
  ultimately show ?thesis
    by (simp only: cnot_schedule_prepare cnot_schedule_optimized readouts_prepare
        readouts_optimized) simp
qed

section \<open>Properties of the correction\<close>

lemma decode_uncorrectable_parts:
  "decode_syndrome s = uncorrectable \<Longrightarrow>
   fst (decode_syndrome s) = Some ''Unknown'' \<and> snd (decode_syndrome s) = Some (- 1)"
  by (simp add: uncorrectable_def)

lemma apply_correction_other:
  "error_type \<noteq> Some ''X'' \<Longrightarrow> error_type \<noteq> Some ''Y'' \<Longrightarrow> error_type \<noteq> Some ''Z'' \<Longrightarrow>
   apply_correction q error_type qubit_idx = Inr []"
  by (simp add: apply_correction_def)

lemma apply_correction_pauli:
  "kind \<in> {''X'', ''Y'', ''Z''} \<Longrightarrow> i < 7 \<Longrightarrow>
   apply_correction data_register (Some kind) (Some (int i)) = Inr [pauli_gate kind i]"
  by (auto simp add: apply_correction_def getitem_def data_register_def pauli_gate_def)

lemma touched_pauli_gate: "touched (pauli_gate kind i) = [i]"
  by (simp add: pauli_gate_def)

lemma step_basis_pauli_gate:
  "j \<noteq> i \<Longrightarrow> map (\<lambda>s. s ! j) (step_basis (pauli_gate kind i) branches) = map (\<lambda>s. s ! j) branches"
  by (simp add: pauli_gate_def)

text \<open>
  C8. With an error type other than X, Y and Z, and whatever the qubit index,
  \<open>apply_correction\<close> issues no gate, so the register is left as it is; this is the case
  for the result of an uncorrectable syndrome, for which it returns the same as for the
  no-error result and nothing that marks the shot. With a kind among X, Y, Z and a qubit
  below 7 it issues exactly one gate, the Pauli gate of that kind on that qubit, which acts
  on no other qubit and leaves the bit of every other qubit of a basis state as it was.
\<close>

theorem correction_only_for_pauli:
  "(error_type \<noteq> Some ''X'' \<and> error_type \<noteq> Some ''Y'' \<and> error_type \<noteq> Some ''Z'' \<longrightarrow>
      apply_correction data_register error_type qubit_idx = Inr [] \<and>
      run_basis [] branches = branches) \<and>
   (decode_syndrome s = uncorrectable \<longrightarrow>
      apply_correction data_register (fst (decode_syndrome s)) (snd (decode_syndrome s)) = Inr [] \<and>
      apply_correction data_register (fst (decode_syndrome s)) (snd (decode_syndrome s)) =
        apply_correction data_register (fst no_error) (snd no_error)) \<and>
   (kind \<in> {''X'', ''Y'', ''Z''} \<and> i < 7 \<longrightarrow>
      apply_correction data_register (Some kind) (Some (int i)) = Inr [pauli_gate kind i] \<and>
      pauli_gate kind i \<in> {squin_x i, squin_y i, squin_z i} \<and>
      touched (pauli_gate kind i) = [i] \<and>
      (\<forall>j. j \<noteq> i \<longrightarrow>
         map (\<lambda>st. st ! j) (run_basis [pauli_gate kind i] branches) = map (\<lambda>st. st ! j) branches))"
proof (intro conjI impI allI)
  assume "error_type \<noteq> Some ''X'' \<and> error_type \<noteq> Some ''Y'' \<and> error_type \<noteq> Some ''Z''"
  then show "apply_correction data_register error_type qubit_idx = Inr []"
    by (simp add: apply_correction_other)
next
  show "run_basis [] branches = branches" by (simp add: run_basis_def)
next
  assume "decode_syndrome s = uncorrectable"
  then have "fst (decode_syndrome s) = Some ''Unknown''"
    by (simp add: uncorrectable_def)
  then show "apply_correction data_register (fst (decode_syndrome s)) (snd (decode_syndrome s)) = Inr []"
    by (simp add: apply_correction_other)
next
  assume "decode_syndrome s = uncorrectable"
  then have "fst (decode_syndrome s) = Some ''Unknown''"
    by (simp add: uncorrectable_def)
  then show "apply_correction data_register (fst (decode_syndrome s)) (snd (decode_syndrome s)) =
      apply_correction data_register (fst no_error) (snd no_error)"
    by (simp add: apply_correction_other no_error_def)
next
  assume "kind \<in> {''X'', ''Y'', ''Z''} \<and> i < 7"
  then show "apply_correction data_register (Some kind) (Some (int i)) = Inr [pauli_gate kind i]"
    by (simp add: apply_correction_pauli)
next
  assume "kind \<in> {''X'', ''Y'', ''Z''} \<and> i < 7"
  then show "pauli_gate kind i \<in> {squin_x i, squin_y i, squin_z i}"
    by (auto simp add: pauli_gate_def)
next
  show "touched (pauli_gate kind i) = [i]" by (rule touched_pauli_gate)
next
  fix j assume "j \<noteq> i"
  then show "map (\<lambda>st. st ! j) (run_basis [pauli_gate kind i] branches) = map (\<lambda>st. st ! j) branches"
    by (simp add: run_basis_def step_basis_pauli_gate)
qed

theorem correction_only_for_pauli_witness:
  "Some ''Unknown'' \<noteq> Some ''X'' \<and> Some ''Unknown'' \<noteq> Some ''Y'' \<and> Some ''Unknown'' \<noteq> Some ''Z'' \<and>
   apply_correction data_register (Some ''Unknown'') (Some (- 1)) = Inr [] \<and>
   decode_syndrome [1, 1, 0, 0, 1, 1] = uncorrectable \<and>
   apply_correction data_register (fst (decode_syndrome [1, 1, 0, 0, 1, 1]))
     (snd (decode_syndrome [1, 1, 0, 0, 1, 1])) = Inr [] \<and>
   ''X'' \<in> {''X'', ''Y'', ''Z''} \<and> (2::nat) < 7 \<and>
   apply_correction data_register (Some ''X'') (Some 2) = Inr [squin_x 2] \<and>
   (3::nat) \<noteq> 2 \<and>
   map (\<lambda>st. st ! 3) (run_basis [pauli_gate ''X'' 2] [replicate 7 False]) = [False]"
proof -
  have u: "decode_syndrome [1, 1, 0, 0, 1, 1] = uncorrectable" by code_simp
  have g: "pauli_gate ''X'' 2 = squin_x 2" by (simp add: pauli_gate_def)
  show ?thesis
    using u g
      correction_only_for_pauli [of "Some ''Unknown''" "Some (- 1)" "[replicate 7 False]"
        "[1, 1, 0, 0, 1, 1]" "''X''" 2]
    by simp
qed

text \<open>
  C8, as stated, fails where it has the shot flagged: for the syndrome \<open>(1,1,0,0,1,1)\<close>,
  which decodes to \<open>('Unknown', -1)\<close>, \<open>apply_correction\<close> returns what it returns for the
  all-zero syndrome, the empty gate list, so nothing tells the shot from a clean one.
\<close>

theorem uncorrectable_not_flagged_counterexample:
  "decode_syndrome [1, 1, 0, 0, 1, 1] = (Some ''Unknown'', Some (- 1)) \<and>
   decode_syndrome [0, 0, 0, 0, 0, 0] = (None, None) \<and>
   apply_correction data_register (Some ''Unknown'') (Some (- 1)) = Inr [] \<and>
   apply_correction data_register (Some ''Unknown'') (Some (- 1)) =
     apply_correction data_register None None"
  by (simp add: apply_correction_def decode_syndrome_def dict_get_def STEANE_SYNDROME_TABLE_def)

section \<open>Properties of the error scaling analysis\<close>

lemma ln_hundredth: "ln (1 / 100 :: real) = 2 * ln (1 / 10)"
proof -
  have "(1 / 100 :: real) = (1 / 10) ^ 2" by (simp add: power2_eq_square)
  then show ?thesis by (simp only: ln_realpow) 
qed

lemma ln_ten_thousandth: "ln (1 / 10000 :: real) = 4 * ln (1 / 10)"
proof -
  have "(1 / 10000 :: real) = (1 / 10) ^ 4" by (simp add: power4_eq_xxxx)
  then show ?thesis by (simp only: ln_realpow) 
qed

lemma fit_of_square_law:
  "power_law_fit [ln (1 / 10), ln (1 / 100)] [ln (1 / 100), ln (1 / 10000)] = Inr (2, 1)"
proof -
  have nz: "ln (1 / 10 :: real) \<noteq> 0" by simp
  show ?thesis
    unfolding ln_hundredth ln_ten_thousandth power_law_fit_def Let_def using nz
    by (simp add: power2_eq_square field_simps)
qed

text \<open>
  C3. On the points \<open>(0.1, 0.01)\<close> and \<open>(0.01, 0.0001)\<close>, where \<open>L = p\<^sup>2\<close> and \<open>L < p\<close> at
  both, the fitted exponent is 2 and the analysis reports amplification; an exponent below
  1 is what it reports as suppression.
\<close>

theorem exponent_two_reported_as_amplification:
  "snd (plot_error_scaling [1 / 10, 1 / 100] [1 / 100, 1 / 10000]) =
     Inr \<lparr>fitted_power = 2, coefficient = 1, verdict = Amplifies,
          helps = [(1 / 10, 1 / 100, 1 / 10), (1 / 100, 1 / 10000, 1 / 100)],
          hurts = [], below_threshold = 2\<rparr> \<and>
   interpret_power 2 = Amplifies \<and> interpret_power (1 / 2) = Suppresses"
proof -
  have logs: "map_log [1 / 10, 1 / 100] = Inr [ln (1 / 10), ln (1 / 100)]"
    "map_log [1 / 100, 1 / 10000] = Inr [ln (1 / 100), ln (1 / 10000)]"
    by (simp_all add: log_py_def)
  show ?thesis
    unfolding plot_error_scaling_def logs
    by (simp add: fit_of_square_law interpret_power_def)
qed

text \<open>
  C9. A physical rate of 0 gets the ratio 0 in the table, and then the analysis ends with
  \<open>ValueError\<close> when the logarithm of that rate is taken; a logical rate of 0 ends it the
  same way. No point is left out of the regression.
\<close>

theorem zero_rate_raises:
  "plot_error_scaling [0, 1 / 100] [0, 1 / 50] =
     ([(0, 0, 0), (1 / 100, 1 / 50, 2)], Inl ValueError) \<and>
   plot_error_scaling [1 / 100, 1 / 50] [0, 1 / 50] =
     ([(1 / 100, 0, 0), (1 / 50, 1 / 50, 1)], Inl ValueError)"
  by (simp add: plot_error_scaling_def ratio_table_def log_py_def)

end
